theory Spec2Isabelle
  imports Complex_Main "HOL-Library.AList"
begin

section \<open>The simulated vehicle (drone.py)\<close>

text \<open>
  Python floats are modelled as exact reals: \<open>x ** 2\<close> is \<open>x\<^sup>2\<close>, \<open>x ** 0.5\<close> on a
  non-negative argument is \<open>sqrt x\<close>, and the literals \<open>0.1\<close>, \<open>0.01\<close>, \<open>0.0001\<close>,
  \<open>111000\<close> are the rationals they denote. Rounding and overflow of IEEE doubles are
  outside the model.

  \<open>DroneState\<close> is the class of the same name; the module-level singleton \<open>drone\<close>
  becomes a state value passed to every handler and returned updated.
\<close>

record DroneState =
  is_flying :: bool
  latitude :: real
  longitude :: real
  altitude :: real
  speed :: real
  battery :: real
  moving_to_target :: bool
  target_latitude :: real
  target_longitude :: real
  target_altitude :: real
  movement_speed :: real

text \<open>\<open>DroneState.__init__\<close>.\<close>

definition DroneState_init :: DroneState where
  "DroneState_init =
     \<lparr> is_flying = False, latitude = 0, longitude = 0, altitude = 0, speed = 0,
       battery = 100, moving_to_target = False, target_latitude = 0,
       target_longitude = 0, target_altitude = 0, movement_speed = 5 \<rparr>"

text \<open>
  The flat-earth distance both \<open>update_position\<close> and \<open>update_movement\<close> compute:
  \<open>((dlat * 111000) ** 2 + (dlon * 111000) ** 2 + dalt ** 2) ** 0.5\<close>.
\<close>

definition flat_distance :: "real \<Rightarrow> real \<Rightarrow> real \<Rightarrow> real" where
  "flat_distance dlat dlon dalt = sqrt ((dlat * 111000)\<^sup>2 + (dlon * 111000)\<^sup>2 + dalt\<^sup>2)"

text \<open>\<open>DroneState.update_position\<close>: a no-op unless the vehicle is flying.\<close>

definition update_position :: "DroneState \<Rightarrow> real \<Rightarrow> real \<Rightarrow> real \<Rightarrow> DroneState" where
  "update_position s dlat dlon dalt =
     (if is_flying s then
        s\<lparr> latitude := latitude s + dlat,
           longitude := longitude s + dlon,
           altitude := altitude s + dalt,
           speed := flat_distance dlat dlon dalt / (1 / 10),
           battery := battery s - 1 / 100 \<rparr>
      else s)"

text \<open>\<open>DroneState.start_move_to\<close>.\<close>

definition start_move_to :: "DroneState \<Rightarrow> real \<Rightarrow> real \<Rightarrow> real \<Rightarrow> DroneState" where
  "start_move_to s lat lon alt =
     (if is_flying s then
        s\<lparr> target_latitude := lat, target_longitude := lon, target_altitude := alt,
           moving_to_target := True \<rparr>
      else s)"

text \<open>
  \<open>DroneState.update_movement\<close>. The one division by the argument \<open>dt\<close>
  (\<open>step_distance / dt\<close>) raises \<open>ZeroDivisionError\<close> in Python when \<open>dt\<close> is zero;
  the model returns that error as a value (the position the method has already
  written when it raises is not kept; the only caller passes \<open>dt = 0.1\<close>). The division
  that computes \<open>step_ratio\<close> has the denominator \<open>max(distance, 0.0001)\<close>, which is
  never zero. As everywhere in this section the arithmetic is exact: the
  \<open>OverflowError\<close> of \<open>** 2\<close> on a huge difference and the rounding of every
  operation are not in the model, so it decides which branch a tick takes and which
  fields it writes, and says nothing reliable about how far a tick moves the vehicle
  in floating point.
\<close>

datatype py_error = ZeroDivisionError

definition update_movement :: "DroneState \<Rightarrow> real \<Rightarrow> py_error + DroneState" where
  "update_movement s dt =
     (if \<not> is_flying s \<or> \<not> moving_to_target s then Inr s
      else
        let dlat = target_latitude s - latitude s;
            dlon = target_longitude s - longitude s;
            dalt = target_altitude s - altitude s;
            distance = flat_distance dlat dlon dalt
        in
          if distance < 1 / 10 then
            Inr (s\<lparr> latitude := target_latitude s,
                    longitude := target_longitude s,
                    altitude := target_altitude s,
                    moving_to_target := False,
                    speed := 0 \<rparr>)
          else
            let step_distance = movement_speed s * dt;
                step_ratio = min (step_distance / max distance (1 / 10000)) 1;
                dlat_step = dlat * step_ratio;
                dlon_step = dlon * step_ratio;
                dalt_step = dalt * step_ratio
            in
              if dt = 0 then Inl ZeroDivisionError
              else
                Inr (s\<lparr> latitude := latitude s + dlat_step,
                        longitude := longitude s + dlon_step,
                        altitude := altitude s + dalt_step,
                        speed := step_distance / dt,
                        battery := battery s - 1 / 100 \<rparr>))"

subsection \<open>Requests and replies of the control endpoints\<close>

text \<open>
  \<open>MoveRequest\<close> and \<open>MoveToRequest\<close> have the same three fields, which share their
  names with fields of \<open>DroneState\<close>; the request's fields carry the prefix \<open>req_\<close>.
  The bounds of the pydantic \<open>Field\<close>s are \<open>MoveRequest_valid\<close>; the framework
  rejects a request outside them before the handler runs.
\<close>

record MoveRequest =
  req_latitude :: real
  req_longitude :: real
  req_altitude :: real

definition MoveRequest_valid :: "MoveRequest \<Rightarrow> bool" where
  "MoveRequest_valid r \<longleftrightarrow>
     - 90 \<le> req_latitude r \<and> req_latitude r \<le> 90 \<and>
     - 180 \<le> req_longitude r \<and> req_longitude r \<le> 180 \<and>
     0 \<le> req_altitude r"

text \<open>
  A handler returns the dictionary \<open>{"status": ..., "message": ...}\<close>. The messages are
  format strings over floats; each template is a constructor that holds the values
  formatted into it.
\<close>

datatype message =
    TookOff real            \<comment> \<open>\<open>f"Drone took off to {altitude} meters"\<close>\<close>
  | AlreadyFlying           \<comment> \<open>\<open>"Drone is already flying"\<close>\<close>
  | Landed                  \<comment> \<open>\<open>"Drone landed"\<close>\<close>
  | NotFlying               \<comment> \<open>\<open>"Drone is not flying"\<close>\<close>
  | MovedTo real real real  \<comment> \<open>\<open>f"Moved to lat: {..}, lon: {..}, alt: {..}"\<close>\<close>
  | MovingTo real real real \<comment> \<open>\<open>f"Drone moving to lat: {..}, lon: {..}, alt: {..}"\<close>\<close>

record reply =
  status :: string
  message :: message

text \<open>The handlers \<open>takeoff\<close>, \<open>land\<close>, \<open>move\<close> and \<open>move_to\<close>: the reply and the new state.\<close>

definition takeoff :: "DroneState \<Rightarrow> real \<Rightarrow> reply \<times> DroneState" where
  "takeoff s alt =
     (if \<not> is_flying s then
        (\<lparr> status = ''success'', message = TookOff alt \<rparr>,
         s\<lparr> is_flying := True, altitude := alt \<rparr>)
      else (\<lparr> status = ''error'', message = AlreadyFlying \<rparr>, s))"

definition land :: "DroneState \<Rightarrow> reply \<times> DroneState" where
  "land s =
     (if is_flying s then
        (\<lparr> status = ''success'', message = Landed \<rparr>,
         s\<lparr> is_flying := False, altitude := 0, speed := 0, moving_to_target := False \<rparr>)
      else (\<lparr> status = ''error'', message = NotFlying \<rparr>, s))"

definition move :: "DroneState \<Rightarrow> MoveRequest \<Rightarrow> reply \<times> DroneState" where
  "move s r =
     (if is_flying s then
        let s' = update_position s (req_latitude r) (req_longitude r) (req_altitude r)
        in (\<lparr> status = ''success'',
              message = MovedTo (latitude s') (longitude s') (altitude s') \<rparr>, s')
      else (\<lparr> status = ''error'', message = NotFlying \<rparr>, s))"

definition move_to :: "DroneState \<Rightarrow> MoveRequest \<Rightarrow> reply \<times> DroneState" where
  "move_to s r =
     (if is_flying s then
        (\<lparr> status = ''success'',
           message = MovingTo (req_latitude r) (req_longitude r) (req_altitude r) \<rparr>,
         start_move_to s (req_latitude r) (req_longitude r) (req_altitude r))
      else (\<lparr> status = ''error'', message = NotFlying \<rparr>, s))"

text \<open>
  The call \<open>drone.update_movement(dt=0.1)\<close> of the simulation loop. With \<open>dt = 0.1\<close> the
  method cannot raise (lemma \<open>update_movement_tick\<close> below), so the error branch is
  never taken.
\<close>

definition tick :: "DroneState \<Rightarrow> DroneState" where
  "tick s = (case update_movement s (1 / 10) of Inr s' \<Rightarrow> s' | Inl e \<Rightarrow> s)"

text \<open>
  One iteration of the \<open>while True\<close> loop of \<open>simulate_drone\<close>, the sleep left out.
\<close>

definition simulate_drone_step :: "DroneState \<Rightarrow> DroneState" where
  "simulate_drone_step s =
     (if is_flying s then
        if moving_to_target s then tick s
        else update_position s (1 / 10000) (1 / 10000) 0
      else s)"


subsection \<open>Notions the properties are stated with\<close>

text \<open>
  The distance \<open>update_movement\<close> computes between the position and the target, and
  the step ratio it derives from it when the distance is at least \<open>0.0001\<close>.
\<close>

definition distance_to_target :: "DroneState \<Rightarrow> real" where
  "distance_to_target s =
     flat_distance (target_latitude s - latitude s) (target_longitude s - longitude s)
       (target_altitude s - altitude s)"

definition step_ratio_of :: "DroneState \<Rightarrow> real" where
  "step_ratio_of s = min (movement_speed s * (1 / 10) / distance_to_target s) 1"

definition target :: "DroneState \<Rightarrow> real \<times> real \<times> real" where
  "target s = (target_latitude s, target_longitude s, target_altitude s)"

text \<open>The invariant of the data model: a vehicle that moves to a target is flying.\<close>

definition seeking_inv :: "DroneState \<Rightarrow> bool" where
  "seeking_inv s \<longleftrightarrow> (moving_to_target s \<longrightarrow> is_flying s)"

text \<open>
  \<open>keeps_goal s s'\<close>: the step from \<open>s\<close> to \<open>s'\<close> neither starts a movement to a target
  nor touches the stored target.
\<close>

definition keeps_goal :: "DroneState \<Rightarrow> DroneState \<Rightarrow> bool" where
  "keeps_goal s s' \<longleftrightarrow> (moving_to_target s' \<longrightarrow> moving_to_target s) \<and> target s' = target s"

subsection \<open>Example states, each reached from the initial state through the handlers\<close>


text \<open>Hovering at 10 m with a goal half a metre above.\<close>

definition short_hop :: DroneState where
  "short_hop =
     snd (move_to (snd (takeoff DroneState_init 10))
       \<lparr> req_latitude = 0, req_longitude = 0, req_altitude = 21 / 2 \<rparr>)"

section \<open>The fleet controller (drones.py)\<close>

text \<open>
  The table \<open>drones\<close> is the list of its rows; \<open>id\<close> is the primary key (the field is
  \<open>drone_id\<close> here, \<open>id\<close> being the identity function of HOL). The nullable numeric
  columns are options (\<open>name\<close> and \<open>owner_id\<close> are the only columns declared
  \<open>nullable=False\<close>; the strings \<open>ip\<close>, \<open>port\<close> and \<open>current_status\<close> are kept as
  strings), timestamps are natural numbers, and \<open>func.now()\<close> is the argument \<open>now\<close> of
  a handler. A numeric column holds an exact real that fits its declaration; what a
  write to such a column does is \<open>numeric\<close> below.
\<close>

record Drone =
  drone_id :: nat
  name :: string
  owner_id :: int
  current_lat :: "real option"
  current_lng :: "real option"
  current_altitude :: "real option"
  current_status :: string
  battery_level :: "int option"
  max_speed :: "real option"
  created_at :: nat
  updated_at :: nat
  ip :: string
  port :: string

text \<open>The fleet's \<open>MoveRequest\<close> (no bounds on its fields), and \<open>move.dict()\<close>.\<close>

record FleetMoveRequest =
  fm_longitude :: real
  fm_latitude :: real
  fm_altitude :: real

datatype json =
    JNull
  | JBool bool
  | JNum real
  | JStr string
  | JObj "(string \<times> json) list"

definition dict :: "FleetMoveRequest \<Rightarrow> json" where
  "dict m = JObj [(''longitude'', JNum (fm_longitude m)),
                  (''latitude'', JNum (fm_latitude m)),
                  (''altitude'', JNum (fm_altitude m))]"

subsection \<open>The network\<close>

text \<open>
  A call through \<open>httpx\<close> is a request handed to the environment \<open>net\<close>, which answers
  with one of four outcomes: the transport failed (\<open>httpx.RequestError\<close>, with its
  text), \<open>raise_for_status\<close> raised (\<open>httpx.HTTPStatusError\<close>, with the status code of
  the response and its text), the call returned and \<open>response.json()\<close> is the given
  value, or the call or \<open>response.json()\<close> raised an exception that is not an
  \<open>httpx.HTTPError\<close> (\<open>json.JSONDecodeError\<close> when the body of the response is not
  JSON, \<open>httpx.InvalidURL\<close> when the address of the row does not parse), given by its
  name. Every function that talks to the network also returns the list of requests
  it issued, in order.
\<close>

datatype http_method = POST | GET

record http_request =
  http_method :: http_method
  url :: string
  body :: "json option"

datatype http_outcome =
    RequestError string
  | HTTPStatusError nat string
  | Returned json
  | OtherException string

text \<open>
  What a handler raises. \<open>HTTPException(status_code, detail)\<close> has one of the three
  details the module formats: \<open>f"Drone {drone_id} not found"\<close>, \<open>str(e)\<close> of a status
  error, and \<open>f"Failed to communicate with drone {drone_id}: {str(e)}"\<close>. \<open>Unhandled\<close>
  is an exception of the given name that no \<open>except\<close> clause of the handler catches.
  \<open>DataError\<close> is the error of the database when a value does not fit its numeric
  column (numeric field overflow), which no handler catches either.
\<close>

datatype detail =
    DroneNotFound nat
  | UpstreamStatus string
  | CommunicationFailed nat string

datatype raised =
    HTTPException (status_code: nat) (detail: detail)
  | Unhandled string
  | DataError

text \<open>
  A write to a column declared \<open>Numeric(p, s)\<close>: the value is rounded to \<open>s\<close> decimal
  places, half away from zero, and the write fails unless the rounded value is below
  \<open>10 ^ (p - s)\<close> in absolute value. The float reaches the database as its decimal
  literal, which the model takes to be the exact real.
\<close>

definition round_half_away :: "nat \<Rightarrow> real \<Rightarrow> real" where
  "round_half_away s x = sgn x * of_int \<lfloor>\<bar>x\<bar> * 10 ^ s + 1 / 2\<rfloor> / 10 ^ s"

definition numeric :: "nat \<Rightarrow> nat \<Rightarrow> real \<Rightarrow> raised + real" where
  "numeric p s x =
     (let r = round_half_away s x
      in if \<bar>r\<bar> < 10 ^ (p - s) then Inr r else Inl DataError)"

subsection \<open>The relay\<close>

definition get_drone_url :: "nat \<Rightarrow> Drone list \<Rightarrow> raised + string" where
  "get_drone_url i db =
     (case find (\<lambda>d. drone_id d = i) db of
        None \<Rightarrow> Inl (HTTPException 404 (DroneNotFound i))
      | Some drone \<Rightarrow> Inr (''http://'' @ ip drone @ '':'' @ port drone))"

text \<open>
  \<open>send_to_drone\<close>: the result or the exception raised, and the requests issued. A
  \<open>GET\<close> carries no body.
\<close>

definition send_to_drone ::
  "(http_request \<Rightarrow> http_outcome) \<Rightarrow> Drone list \<Rightarrow> nat \<Rightarrow> string \<Rightarrow> http_method \<Rightarrow>
     json option \<Rightarrow> (raised + json) \<times> http_request list" where
  "send_to_drone net db i endpoint method data =
     (case get_drone_url i db of
        Inl e \<Rightarrow> (Inl e, [])
      | Inr drone_url \<Rightarrow>
          let rq = \<lparr> http_method = method, url = drone_url @ endpoint,
                     body = (case method of POST \<Rightarrow> data | GET \<Rightarrow> None) \<rparr>
          in (case net rq of
                Returned j \<Rightarrow> Inr j
              | HTTPStatusError code e \<Rightarrow> Inl (HTTPException code (UpstreamStatus e))
              | RequestError e \<Rightarrow> Inl (HTTPException 500 (CommunicationFailed i e))
              | OtherException e \<Rightarrow> Inl (Unhandled e),
              [rq]))"

text \<open>
  \<open>db.query(Drone).filter(Drone.id == drone_id).update(...)\<close> followed by the commit,
  for values that fit their columns.
\<close>

definition update_rows :: "nat \<Rightarrow> (Drone \<Rightarrow> Drone) \<Rightarrow> Drone list \<Rightarrow> Drone list" where
  "update_rows i f db = map (\<lambda>d. if drone_id d = i then f d else d) db"

text \<open>
  The replies of the relay handlers: \<open>{"drone_id": .., "status": <text>, "result": ..}\<close>
  for a command and \<open>{"drone_id": .., "status": <the vehicle's reply>}\<close> for a status
  query. A handler returns its reply or the exception, the table, and the requests
  issued. \<open>move_drone\<close> and \<open>move_to_drone\<close> write \<open>current_lat\<close>, \<open>current_lng\<close> and
  \<open>current_altitude\<close>, declared \<open>Numeric(10, 8)\<close>, \<open>Numeric(11, 8)\<close> and \<open>Numeric(8, 2)\<close>:
  when a value does not fit, the update raises after the vehicle has answered, nothing
  is committed and the table stays as it was.
\<close>

datatype relay_reply =
    CommandReply nat string json
  | StatusReply nat json

type_synonym relay_result = "(raised + relay_reply) \<times> Drone list \<times> http_request list"

definition takeoff_drone ::
  "(http_request \<Rightarrow> http_outcome) \<Rightarrow> nat \<Rightarrow> Drone list \<Rightarrow> nat \<Rightarrow> relay_result" where
  "takeoff_drone net now db i =
     (case send_to_drone net db i ''/api/drone/takeoff'' POST None of
        (Inl e, sent) \<Rightarrow> (Inl e, db, sent)
      | (Inr result, sent) \<Rightarrow>
          (Inr (CommandReply i ''takeoff initiated'' result),
           update_rows i (\<lambda>d. d\<lparr> current_status := ''flying'', updated_at := now \<rparr>) db,
           sent))"

definition land_drone ::
  "(http_request \<Rightarrow> http_outcome) \<Rightarrow> nat \<Rightarrow> Drone list \<Rightarrow> nat \<Rightarrow> relay_result" where
  "land_drone net now db i =
     (case send_to_drone net db i ''/api/drone/land'' POST None of
        (Inl e, sent) \<Rightarrow> (Inl e, db, sent)
      | (Inr result, sent) \<Rightarrow>
          (Inr (CommandReply i ''landing initiated'' result),
           update_rows i (\<lambda>d. d\<lparr> current_status := ''stopped'', updated_at := now \<rparr>) db,
           sent))"

definition move_drone ::
  "(http_request \<Rightarrow> http_outcome) \<Rightarrow> nat \<Rightarrow> Drone list \<Rightarrow> nat \<Rightarrow> FleetMoveRequest \<Rightarrow>
     relay_result" where
  "move_drone net now db i m =
     (case send_to_drone net db i ''/api/drone/move'' POST (Some (dict m)) of
        (Inl e, sent) \<Rightarrow> (Inl e, db, sent)
      | (Inr result, sent) \<Rightarrow>
          (case numeric 10 8 (fm_latitude m) of
             Inl e \<Rightarrow> (Inl e, db, sent)
           | Inr lat \<Rightarrow>
          (case numeric 11 8 (fm_longitude m) of
             Inl e \<Rightarrow> (Inl e, db, sent)
           | Inr lng \<Rightarrow>
          (case numeric 8 2 (fm_altitude m) of
             Inl e \<Rightarrow> (Inl e, db, sent)
           | Inr alt \<Rightarrow>
               (Inr (CommandReply i ''move command sent'' result),
                update_rows i
                  (\<lambda>d. d\<lparr> current_lat := Some lat,
                          current_lng := Some lng,
                          current_altitude := Some alt,
                          updated_at := now \<rparr>) db,
                sent)))))"

definition move_to_drone ::
  "(http_request \<Rightarrow> http_outcome) \<Rightarrow> nat \<Rightarrow> Drone list \<Rightarrow> nat \<Rightarrow> FleetMoveRequest \<Rightarrow>
     relay_result" where
  "move_to_drone net now db i m =
     (case send_to_drone net db i ''/api/drone/move_to'' POST (Some (dict m)) of
        (Inl e, sent) \<Rightarrow> (Inl e, db, sent)
      | (Inr result, sent) \<Rightarrow>
          (case numeric 10 8 (fm_latitude m) of
             Inl e \<Rightarrow> (Inl e, db, sent)
           | Inr lat \<Rightarrow>
          (case numeric 11 8 (fm_longitude m) of
             Inl e \<Rightarrow> (Inl e, db, sent)
           | Inr lng \<Rightarrow>
          (case numeric 8 2 (fm_altitude m) of
             Inl e \<Rightarrow> (Inl e, db, sent)
           | Inr alt \<Rightarrow>
               (Inr (CommandReply i ''move_to command sent'' result),
                update_rows i
                  (\<lambda>d. d\<lparr> current_lat := Some lat,
                          current_lng := Some lng,
                          current_altitude := Some alt,
                          updated_at := now \<rparr>) db,
                sent)))))"

definition get_drone_status ::
  "(http_request \<Rightarrow> http_outcome) \<Rightarrow> Drone list \<Rightarrow> nat \<Rightarrow> relay_result" where
  "get_drone_status net db i =
     (case send_to_drone net db i ''/api/drone/status'' GET None of
        (Inl e, sent) \<Rightarrow> (Inl e, db, sent)
      | (Inr result, sent) \<Rightarrow> (Inr (StatusReply i result), db, sent))"

text \<open>The five relay routes as one function of the command.\<close>

datatype relay_command = Takeoff | Land | Move FleetMoveRequest | MoveTo FleetMoveRequest | Status

fun relay ::
  "(http_request \<Rightarrow> http_outcome) \<Rightarrow> nat \<Rightarrow> Drone list \<Rightarrow> nat \<Rightarrow> relay_command \<Rightarrow>
     relay_result" where
  "relay net now db i Takeoff = takeoff_drone net now db i"
| "relay net now db i Land = land_drone net now db i"
| "relay net now db i (Move m) = move_drone net now db i m"
| "relay net now db i (MoveTo m) = move_to_drone net now db i m"
| "relay net now db i Status = get_drone_status net db i"

text \<open>The request a command sends to the vehicle registered as row \<open>d\<close>.\<close>

fun request_of :: "Drone \<Rightarrow> relay_command \<Rightarrow> http_request" where
  "request_of d Takeoff =
     \<lparr> http_method = POST, url = ''http://'' @ ip d @ '':'' @ port d @ ''/api/drone/takeoff'',
       body = None \<rparr>"
| "request_of d Land =
     \<lparr> http_method = POST, url = ''http://'' @ ip d @ '':'' @ port d @ ''/api/drone/land'',
       body = None \<rparr>"
| "request_of d (Move m) =
     \<lparr> http_method = POST, url = ''http://'' @ ip d @ '':'' @ port d @ ''/api/drone/move'',
       body = Some (dict m) \<rparr>"
| "request_of d (MoveTo m) =
     \<lparr> http_method = POST, url = ''http://'' @ ip d @ '':'' @ port d @ ''/api/drone/move_to'',
       body = Some (dict m) \<rparr>"
| "request_of d Status =
     \<lparr> http_method = GET, url = ''http://'' @ ip d @ '':'' @ port d @ ''/api/drone/status'',
       body = None \<rparr>"

subsection \<open>The telemetry aggregator\<close>










text \<open>
  The second loop, \<open>for ws in websocket_connections\<close>, pushes the snapshot to every
  connection and removes a connection whose push raises. Connections are numbered;
  \<open>send_ok ws\<close> says whether \<open>ws.send_json\<close> returns. The list is mutated while it is
  iterated: Python's list iterator keeps an index \<open>i\<close>, stops when \<open>i\<close> reaches the
  current length and otherwise yields the element at \<open>i\<close> and advances, and
  \<open>list.remove\<close> deletes the first occurrence. The loop returns the connections left
  and the connections the snapshot was delivered to.
\<close>

function broadcast_loop ::
  "(nat \<Rightarrow> bool) \<Rightarrow> nat \<Rightarrow> nat list \<Rightarrow> nat list \<Rightarrow> nat list \<times> nat list" where
  "broadcast_loop send_ok i websocket_connections delivered =
     (if i < length websocket_connections then
        let ws = websocket_connections ! i in
        if send_ok ws then
          broadcast_loop send_ok (Suc i) websocket_connections (delivered @ [ws])
        else
          broadcast_loop send_ok (Suc i) (remove1 ws websocket_connections) delivered
      else (websocket_connections, delivered))"
  by pat_completeness auto
termination
proof (relation "measure (\<lambda>(send_ok, i, conns, delivered). length conns - i)")
  show "wf (measure (\<lambda>(send_ok, i, conns, delivered). length conns - i))"
    by simp
next
  fix send_ok :: "nat \<Rightarrow> bool" and i :: nat and conns delivered :: "nat list" and ws
  assume "i < length conns"
  then show "((send_ok, Suc i, conns, delivered @ [ws]), (send_ok, i, conns, delivered))
      \<in> measure (\<lambda>(send_ok, i, conns, delivered). length conns - i)"
    by simp
next
  fix send_ok :: "nat \<Rightarrow> bool" and i :: nat and conns delivered :: "nat list" and ws
  assume a: "i < length conns" "ws = conns ! i"
  then have "ws \<in> set conns" by simp
  then have "length (remove1 ws conns) = length conns - 1"
    by (simp add: length_remove1)
  with a(1) show "((send_ok, Suc i, remove1 ws conns, delivered), (send_ok, i, conns, delivered))
      \<in> measure (\<lambda>(send_ok, i, conns, delivered). length conns - i)"
    by simp
qed

definition broadcast :: "(nat \<Rightarrow> bool) \<Rightarrow> nat list \<Rightarrow> nat list \<times> nat list" where
  "broadcast send_ok websocket_connections = broadcast_loop send_ok 0 websocket_connections []"

subsection \<open>An example fleet and example networks\<close>

definition example_drone :: "nat \<Rightarrow> string \<Rightarrow> Drone" where
  "example_drone i p =
     \<lparr> drone_id = i, name = ''drone'', owner_id = 1, current_lat = None, current_lng = None,
       current_altitude = None, current_status = ''stopped'', battery_level = Some 100,
       max_speed = Some 50, created_at = 0, updated_at = 0, ip = ''10.0.0.1'', port = p \<rparr>"

definition fleet3 :: "Drone list" where
  "fleet3 = [example_drone 1 ''8001'', example_drone 2 ''8002'', example_drone 3 ''8003'']"

text \<open>The vehicle on port 8002 does not answer its status query; every other call returns.\<close>

definition one_down :: "http_request \<Rightarrow> http_outcome" where
  "one_down rq =
     (if url rq = ''http://10.0.0.1:8002/api/drone/status''
      then RequestError ''connection refused''
      else Returned (JObj [(''is_flying'', JBool False)]))"

definition unreachable_net :: "http_request \<Rightarrow> http_outcome" where
  "unreachable_net rq = RequestError ''connection refused''"

definition failing_net :: "http_request \<Rightarrow> http_outcome" where
  "failing_net rq = HTTPStatusError 503 ''Server error 503 Service Unavailable''"






section \<open>Properties of the vehicle\<close>

subsection \<open>Takeoff and displacement\<close>

text \<open>
  C6. Takeoff succeeds from the grounded state only: there it replies success, sets
  \<open>is_flying\<close> and sets the altitude to exactly the requested value, every other field
  kept. When the vehicle is already flying it replies with the structured error
  \<open>{"status": "error", "message": "Drone is already flying"}\<close> and returns the state
  unchanged. Hence a second takeoff right after a first one is always the error reply
  and changes nothing.
\<close>

theorem takeoff_only_from_grounded:
  "(\<not> is_flying s \<longrightarrow>
      takeoff s a = (\<lparr> status = ''success'', message = TookOff a \<rparr>,
                     s\<lparr> is_flying := True, altitude := a \<rparr>)) \<and>
   (is_flying s \<longrightarrow>
      takeoff s a = (\<lparr> status = ''error'', message = AlreadyFlying \<rparr>, s)) \<and>
   (status (fst (takeoff s a)) = ''success'' \<longrightarrow> \<not> is_flying s) \<and>
   takeoff (snd (takeoff s a)) b =
     (\<lparr> status = ''error'', message = AlreadyFlying \<rparr>, snd (takeoff s a))"
  by (simp add: takeoff_def)

theorem takeoff_only_from_grounded_witness:
  "\<not> is_flying DroneState_init \<and>
   takeoff DroneState_init 10 =
     (\<lparr> status = ''success'', message = TookOff 10 \<rparr>,
      DroneState_init\<lparr> is_flying := True, altitude := 10 \<rparr>) \<and>
   is_flying (snd (takeoff DroneState_init 10)) \<and>
   takeoff (snd (takeoff DroneState_init 10)) 20 =
     (\<lparr> status = ''error'', message = AlreadyFlying \<rparr>,
      DroneState_init\<lparr> is_flying := True, altitude := 10 \<rparr>) \<and>
   status (fst (takeoff DroneState_init 10)) = ''success''"
  using takeoff_only_from_grounded [of DroneState_init 10 20]
  by (simp add: DroneState_init_def takeoff_def)

text \<open>
  C7. While the vehicle is grounded, \<open>update_position\<close> returns the state unchanged for
  all deltas, so position, speed and battery stay as they were, and the \<open>move\<close> handler
  replies with an error and returns the state unchanged.
\<close>

theorem displace_grounded_noop:
  "\<not> is_flying s \<Longrightarrow>
     update_position s dlat dlon dalt = s \<and>
     move s r = (\<lparr> status = ''error'', message = NotFlying \<rparr>, s)"
  by (simp add: update_position_def move_def)

theorem displace_grounded_noop_witness:
  "\<not> is_flying DroneState_init \<and>
   update_position DroneState_init 1 2 3 = DroneState_init \<and>
   move DroneState_init \<lparr> req_latitude = 1, req_longitude = 2, req_altitude = 3 \<rparr> =
     (\<lparr> status = ''error'', message = NotFlying \<rparr>, DroneState_init)"
  using displace_grounded_noop
    [of DroneState_init 1 2 3 "\<lparr> req_latitude = 1, req_longitude = 2, req_altitude = 3 \<rparr>"]
  by (simp add: DroneState_init_def update_position_def move_def)

subsection \<open>The tick\<close>

lemma update_movement_tick: "update_movement s (1 / 10) = Inr (tick s)"
  by (simp add: tick_def update_movement_def Let_def)

lemma tick_seeking_eq:
  assumes "is_flying s" "moving_to_target s" "1 / 10 \<le> distance_to_target s"
  shows "tick s =
     s\<lparr> latitude := latitude s + (target_latitude s - latitude s) * step_ratio_of s,
        longitude := longitude s + (target_longitude s - longitude s) * step_ratio_of s,
        altitude := altitude s + (target_altitude s - altitude s) * step_ratio_of s,
        speed := movement_speed s * (1 / 10) / (1 / 10),
        battery := battery s - 1 / 100 \<rparr>"
proof -
  have m: "max (distance_to_target s) (1 / 10000) = distance_to_target s"
    using assms(3) by simp
  have n: "\<not> distance_to_target s < 1 / 10"
    using assms(3) by simp
  show ?thesis
    using assms(1,2) n m
    unfolding tick_def update_movement_def step_ratio_of_def distance_to_target_def Let_def
    by simp
qed

lemma tick_snap_eq:
  assumes "is_flying s" "moving_to_target s" "distance_to_target s < 1 / 10"
  shows "tick s =
     s\<lparr> latitude := target_latitude s, longitude := target_longitude s,
        altitude := target_altitude s, moving_to_target := False, speed := 0 \<rparr>"
  using assms
  unfolding tick_def update_movement_def distance_to_target_def Let_def
  by simp

lemma tick_idle: "\<not> (is_flying s \<and> moving_to_target s) \<Longrightarrow> tick s = s"
  by (auto simp: tick_def update_movement_def)

subsection \<open>The invariant of Seeking\<close>

lemma tick_inv: "seeking_inv s \<Longrightarrow> seeking_inv (tick s)"
proof (cases "is_flying s \<and> moving_to_target s")
  case False
  assume "seeking_inv s"
  with tick_idle [OF False] show ?thesis by simp
next
  case True
  then have a: "is_flying s" "moving_to_target s" by simp_all
  show ?thesis
  proof (cases "distance_to_target s < 1 / 10")
    case True
    show ?thesis unfolding tick_snap_eq [OF a True] by (simp add: seeking_inv_def)
  next
    case False
    then have "1 / 10 \<le> distance_to_target s" by simp
    from tick_seeking_eq [OF a this] a show ?thesis by (simp add: seeking_inv_def)
  qed
qed

lemma tick_keeps_goal: "keeps_goal s (tick s)"
proof (cases "is_flying s \<and> moving_to_target s")
  case False
  from tick_idle [OF False] show ?thesis by (simp add: keeps_goal_def)
next
  case True
  then have a: "is_flying s" "moving_to_target s" by simp_all
  show ?thesis
  proof (cases "distance_to_target s < 1 / 10")
    case True
    show ?thesis unfolding tick_snap_eq [OF a True] by (simp add: keeps_goal_def target_def)
  next
    case False
    then have "1 / 10 \<le> distance_to_target s" by simp
    from tick_seeking_eq [OF a this] a show ?thesis by (simp add: keeps_goal_def target_def)
  qed
qed

lemma update_movement_inv:
  "seeking_inv s \<Longrightarrow> update_movement s dt = Inr s' \<Longrightarrow> seeking_inv s' \<and> keeps_goal s s'"
  unfolding update_movement_def seeking_inv_def keeps_goal_def target_def Let_def
  by (auto split: if_splits)

lemma simulate_drone_step_inv:
  "seeking_inv s \<Longrightarrow>
     seeking_inv (simulate_drone_step s) \<and> keeps_goal s (simulate_drone_step s)"
  using tick_inv [of s] tick_keeps_goal [of s]
  by (auto simp: simulate_drone_step_def seeking_inv_def keeps_goal_def target_def
      update_position_def)

lemma handlers_inv:
  "seeking_inv s \<Longrightarrow>
      seeking_inv (snd (takeoff s a)) \<and>
      seeking_inv (snd (land s)) \<and>
      seeking_inv (update_position s x y z) \<and>
      seeking_inv (snd (move s r)) \<and>
      seeking_inv (start_move_to s x y z) \<and>
      seeking_inv (snd (move_to s r))"
  by (auto simp: seeking_inv_def takeoff_def land_def update_position_def
      move_def start_move_to_def move_to_def Let_def)

lemma handlers_keep_goal:
  "keeps_goal s (snd (takeoff s a)) \<and>
   keeps_goal s (snd (land s)) \<and>
   keeps_goal s (update_position s x y z) \<and>
   keeps_goal s (snd (move s r))"
  by (auto simp: keeps_goal_def target_def takeoff_def land_def update_position_def
      move_def Let_def)

lemma start_move_to_goal:
  "(is_flying s \<longrightarrow>
      moving_to_target (start_move_to s x y z) \<and> target (start_move_to s x y z) = (x, y, z)) \<and>
   (\<not> is_flying s \<longrightarrow> start_move_to s x y z = s)"
  by (simp add: start_move_to_def target_def)

text \<open>
  C8. \<open>moving_to_target\<close> implies \<open>is_flying\<close> in the initial state, and every operation
  keeps it: the handlers \<open>takeoff\<close>, \<open>land\<close>, \<open>move\<close> and \<open>move_to\<close>, the methods
  \<open>update_position\<close>, \<open>start_move_to\<close> and \<open>update_movement\<close> (whenever it returns), and
  an iteration of the simulation loop. The target fields always hold a value (the
  constructor sets them); the second half says where the value comes from when
  \<open>moving_to_target\<close> holds: an accepted \<open>start_move_to\<close> sets the flag and stores its
  arguments as the target in the same step, a rejected one changes nothing, and no
  other operation sets the flag or changes the target.
\<close>

theorem seeking_implies_flying_invariant:
  "seeking_inv DroneState_init \<and>
   (seeking_inv s \<longrightarrow>
      seeking_inv (snd (takeoff s a)) \<and>
      seeking_inv (snd (land s)) \<and>
      seeking_inv (update_position s x y z) \<and>
      seeking_inv (snd (move s r)) \<and>
      seeking_inv (start_move_to s x y z) \<and>
      seeking_inv (snd (move_to s r)) \<and>
      (\<forall>s'. update_movement s dt = Inr s' \<longrightarrow> seeking_inv s' \<and> keeps_goal s s') \<and>
      seeking_inv (simulate_drone_step s) \<and>
      keeps_goal s (simulate_drone_step s)) \<and>
   (is_flying s \<longrightarrow>
      moving_to_target (start_move_to s x y z) \<and> target (start_move_to s x y z) = (x, y, z)) \<and>
   (\<not> is_flying s \<longrightarrow> start_move_to s x y z = s) \<and>
   keeps_goal s (snd (takeoff s a)) \<and>
   keeps_goal s (snd (land s)) \<and>
   keeps_goal s (update_position s x y z) \<and>
   keeps_goal s (snd (move s r))"
proof -
  have "seeking_inv DroneState_init"
    by (simp add: seeking_inv_def DroneState_init_def)
  then show ?thesis
    using simulate_drone_step_inv [of s] update_movement_inv [of s dt]
      handlers_inv [of s a x y z r] handlers_keep_goal [of s a x y z r]
      start_move_to_goal [of s x y z]
    by blast
qed

lemma short_hop_eq:
  "short_hop = DroneState_init\<lparr> is_flying := True, altitude := 10,
     target_latitude := 0, target_longitude := 0, target_altitude := 21 / 2,
     moving_to_target := True \<rparr>"
  by (simp add: short_hop_def move_to_def takeoff_def start_move_to_def DroneState_init_def)

theorem seeking_implies_flying_invariant_witness:
  "seeking_inv short_hop \<and> moving_to_target short_hop \<and> is_flying short_hop \<and>
   seeking_inv (snd (land short_hop)) \<and>
   \<not> moving_to_target (snd (land short_hop)) \<and>
   seeking_inv (simulate_drone_step short_hop) \<and>
   seeking_inv (start_move_to short_hop 1 2 3) \<and>
   target (start_move_to short_hop 1 2 3) = (1, 2, 3) \<and>
   update_movement short_hop (1 / 10) = Inr (tick short_hop) \<and>
   seeking_inv (tick short_hop) \<and>
   \<not> is_flying DroneState_init \<and>
   start_move_to DroneState_init 1 2 3 = DroneState_init"
proof -
  have f: "is_flying short_hop" "moving_to_target short_hop"
    by (simp_all add: short_hop_eq DroneState_init_def)
  then have i: "seeking_inv short_hop" by (simp add: seeking_inv_def)
  have l: "\<not> moving_to_target (snd (land short_hop))"
    using f by (simp add: land_def)
  have g: "\<not> is_flying DroneState_init" by (simp add: DroneState_init_def)
  note t = update_movement_tick [of short_hop]
  from seeking_implies_flying_invariant
    [of short_hop 10 1 2 3 "\<lparr> req_latitude = 1, req_longitude = 2, req_altitude = 3 \<rparr>" "1 / 10"]
    seeking_implies_flying_invariant
    [of DroneState_init 10 1 2 3 "\<lparr> req_latitude = 1, req_longitude = 2, req_altitude = 3 \<rparr>"
      "1 / 10"]
    i f l g t
  show ?thesis by blast
qed

subsection \<open>Drifting\<close>





section \<open>Properties of the fleet controller\<close>

subsection \<open>The relay\<close>

lemma send_unregistered:
  "find (\<lambda>d. drone_id d = i) db = None \<Longrightarrow>
     send_to_drone net db i ep m data = (Inl (HTTPException 404 (DroneNotFound i)), [])"
  by (simp add: send_to_drone_def get_drone_url_def)

lemma send_registered:
  "find (\<lambda>d. drone_id d = i) db = Some d \<Longrightarrow>
     send_to_drone net db i ep m data =
       (let rq = \<lparr> http_method = m, url = ''http://'' @ ip d @ '':'' @ port d @ ep,
                   body = (case m of POST \<Rightarrow> data | GET \<Rightarrow> None) \<rparr>
        in (case net rq of
              Returned j \<Rightarrow> Inr j
            | HTTPStatusError code e \<Rightarrow> Inl (HTTPException code (UpstreamStatus e))
            | RequestError e \<Rightarrow> Inl (HTTPException 500 (CommunicationFailed i e))
            | OtherException e \<Rightarrow> Inl (Unhandled e),
            [rq]))"
  by (simp add: send_to_drone_def get_drone_url_def)

lemma relay_request_error:
  "find (\<lambda>d. drone_id d = i) db = Some d \<Longrightarrow> net (request_of d c) = RequestError e \<Longrightarrow>
     relay net now db i c =
       (Inl (HTTPException 500 (CommunicationFailed i e)), db, [request_of d c])"
  by (cases c)
    (simp_all add: takeoff_drone_def land_drone_def move_drone_def move_to_drone_def
      get_drone_status_def send_registered Let_def)

lemma relay_status_error:
  "find (\<lambda>d. drone_id d = i) db = Some d \<Longrightarrow>
   net (request_of d c) = HTTPStatusError code e \<Longrightarrow>
     relay net now db i c =
       (Inl (HTTPException code (UpstreamStatus e)), db, [request_of d c])"
  by (cases c)
    (simp_all add: takeoff_drone_def land_drone_def move_drone_def move_to_drone_def
      get_drone_status_def send_registered Let_def)

lemma find_fleet3:
  "find (\<lambda>d. drone_id d = 2) fleet3 = Some (example_drone 2 ''8002'')"
  "find (\<lambda>d. drone_id d = 9) fleet3 = None"
  by (simp_all add: fleet3_def example_drone_def)

text \<open>
  C9. For an id that no row of the table has, each of the five relay commands raises
  \<open>HTTPException(404, "Drone <id> not found")\<close>, leaves the table as it was and issues
  no request to the network.
\<close>

theorem relay_unregistered_not_found:
  "find (\<lambda>d. drone_id d = i) db = None \<Longrightarrow>
     relay net now db i c = (Inl (HTTPException 404 (DroneNotFound i)), db, [])"
  by (cases c)
    (simp_all add: takeoff_drone_def land_drone_def move_drone_def move_to_drone_def
      get_drone_status_def send_unregistered)

theorem relay_unregistered_not_found_witness:
  "find (\<lambda>d. drone_id d = 9) fleet3 = None \<and>
   relay one_down 7 fleet3 9 Takeoff = (Inl (HTTPException 404 (DroneNotFound 9)), fleet3, []) \<and>
   relay one_down 7 fleet3 9 Status = (Inl (HTTPException 404 (DroneNotFound 9)), fleet3, [])"
  using relay_unregistered_not_found [OF find_fleet3(2), of one_down 7 Takeoff]
    relay_unregistered_not_found [OF find_fleet3(2), of one_down 7 Status]
    find_fleet3(2)
  by simp

text \<open>
  C3. When the request a relay command sends to a registered vehicle fails at the
  transport level, the command raises: \<open>HTTPException(500, "Failed to communicate
  with drone <id>: ...")\<close> when the vehicle cannot be reached, and an \<open>HTTPException\<close>
  with the status code of the response when the response has an error status. In
  both cases the table is returned as it was, and exactly that one request was
  issued: the update of the table comes after the call and is not reached.
\<close>

theorem relay_transport_failure:
  "find (\<lambda>d. drone_id d = i) db = Some d \<Longrightarrow>
   (net (request_of d c) = RequestError e \<longrightarrow>
      relay net now db i c =
        (Inl (HTTPException 500 (CommunicationFailed i e)), db, [request_of d c])) \<and>
   (net (request_of d c) = HTTPStatusError code e \<longrightarrow>
      relay net now db i c =
        (Inl (HTTPException code (UpstreamStatus e)), db, [request_of d c]))"
proof (intro conjI impI)
  assume r: "find (\<lambda>d. drone_id d = i) db = Some d"
  {
    assume "net (request_of d c) = RequestError e"
    with r show "relay net now db i c =
        (Inl (HTTPException 500 (CommunicationFailed i e)), db, [request_of d c])"
      by (rule relay_request_error)
  next
    assume "net (request_of d c) = HTTPStatusError code e"
    with r show "relay net now db i c =
        (Inl (HTTPException code (UpstreamStatus e)), db, [request_of d c])"
      by (rule relay_status_error)
  }
qed

theorem relay_transport_failure_witness:
  "find (\<lambda>d. drone_id d = 2) fleet3 = Some (example_drone 2 ''8002'') \<and>
   unreachable_net (request_of (example_drone 2 ''8002'') Takeoff) =
     RequestError ''connection refused'' \<and>
   relay unreachable_net 7 fleet3 2 Takeoff =
     (Inl (HTTPException 500 (CommunicationFailed 2 ''connection refused'')), fleet3,
      [request_of (example_drone 2 ''8002'') Takeoff]) \<and>
   failing_net (request_of (example_drone 2 ''8002'') Land) =
     HTTPStatusError 503 ''Server error 503 Service Unavailable'' \<and>
   relay failing_net 7 fleet3 2 Land =
     (Inl (HTTPException 503 (UpstreamStatus ''Server error 503 Service Unavailable'')), fleet3,
      [request_of (example_drone 2 ''8002'') Land])"
proof -
  have u: "unreachable_net (request_of (example_drone 2 ''8002'') Takeoff) =
      RequestError ''connection refused''"
    by (simp add: unreachable_net_def)
  have f: "failing_net (request_of (example_drone 2 ''8002'') Land) =
      HTTPStatusError 503 ''Server error 503 Service Unavailable''"
    by (simp add: failing_net_def)
  from relay_transport_failure
    [OF find_fleet3(1), where net = unreachable_net and c = Takeoff
      and e = "''connection refused''" and now = 7] u
  have 1: "relay unreachable_net 7 fleet3 2 Takeoff =
     (Inl (HTTPException 500 (CommunicationFailed 2 ''connection refused'')), fleet3,
      [request_of (example_drone 2 ''8002'') Takeoff])"
    by blast
  from relay_transport_failure
    [OF find_fleet3(1), where net = failing_net and c = Land and code = 503
      and e = "''Server error 503 Service Unavailable''" and now = 7] f
  have 2: "relay failing_net 7 fleet3 2 Land =
     (Inl (HTTPException 503 (UpstreamStatus ''Server error 503 Service Unavailable'')), fleet3,
      [request_of (example_drone 2 ''8002'') Land])"
    by blast
  from find_fleet3(1) u f 1 2 show ?thesis by blast
qed

lemma numeric_fits:
  "\<bar>round_half_away s x\<bar> < 10 ^ (p - s) \<Longrightarrow> numeric p s x = Inr (round_half_away s x)"
  by (simp add: numeric_def)

lemma numeric_overflow:
  "\<not> \<bar>round_half_away s x\<bar> < 10 ^ (p - s) \<Longrightarrow> numeric p s x = Inl DataError"
  by (simp add: numeric_def)





subsection \<open>The telemetry aggregator\<close>















text \<open>
  C4 does not hold of the broadcast loop. Connections 1 and 2 are active, the push to
  1 raises, the push to 2 would succeed. Connection 1 is removed while the list is
  iterated, connection 2 moves to index 0, the iterator goes on at index 1 and stops:
  the snapshot of this round is delivered to nobody, although connection 2 stays
  active.
\<close>

theorem broadcast_skips_next_subscriber:
  "broadcast (\<lambda>ws. ws \<noteq> 1) [1, 2] = ([2], [])"
  by (simp add: broadcast_def)

end
